theory Spec2Isabelle
  imports Complex_Main
begin

section \<open>Python strings\<close>

text \<open>
  A Python \<open>str\<close> is a sequence of Unicode code points; the fetched LICENSE text is decoded
  from UTF-8, so it is not restricted to one byte per character.  A string is modelled as
  the list of its code points.
\<close>

type_synonym pystr = "nat list"

definition str :: "string \<Rightarrow> pystr" where
  "str s = map of_char s"

text \<open>
  The line boundaries of \<open>str.splitlines\<close>: LF, VT, FF, CR, FS, GS, RS, NEL (U+0085),
  LINE SEPARATOR (U+2028) and PARAGRAPH SEPARATOR (U+2029).
\<close>

definition is_linebreak :: "nat \<Rightarrow> bool" where
  "is_linebreak c = (c \<in> set [10, 11, 12, 13, 28, 29, 30, 133, 8232, 8233])"

text \<open>
  The characters \<open>str.strip\<close> removes when called without an argument: the code points
  whose \<open>isspace\<close> holds.
\<close>

definition is_space :: "nat \<Rightarrow> bool" where
  "is_space c = (c \<in> set [9, 10, 11, 12, 13, 28, 29, 30, 31, 32, 133, 160, 5760,
      8192, 8193, 8194, 8195, 8196, 8197, 8198, 8199, 8200, 8201, 8202,
      8232, 8233, 8239, 8287, 12288])"

text \<open>\<open>s.strip()\<close>: drop the whitespace at the left end, then at the right end.\<close>

definition strip :: "pystr \<Rightarrow> pystr" where
  "strip s = rev (dropWhile is_space (rev (dropWhile is_space s)))"

text \<open>
  \<open>s.splitlines()\<close>, as the loop of the interpreter reads: while input is left, take the
  characters up to the next line boundary as a line, and step over the boundary (over both
  characters when it is CR followed by LF).  A final line needs no boundary; a boundary at
  the very end opens no further line.
\<close>

function splitlines :: "pystr \<Rightarrow> pystr list" where
  "splitlines s =
     (if s = [] then []
      else takeWhile (\<lambda>c. \<not> is_linebreak c) s #
        (case dropWhile (\<lambda>c. \<not> is_linebreak c) s of
           [] \<Rightarrow> []
         | c # r \<Rightarrow>
             (if c = 13 \<and> r \<noteq> [] \<and> hd r = 10 then splitlines (tl r)
              else splitlines r)))"
  by pat_completeness auto
termination
proof (relation "measure length", goal_cases)
  case 1
  show ?case by simp
next
  case (2 s c r)
  have "length (dropWhile (\<lambda>c. \<not> is_linebreak c) s) \<le> length s"
    by (rule length_dropWhile_le)
  with 2 show ?case by (cases r) auto
next
  case (3 s c r)
  have "length (dropWhile (\<lambda>c. \<not> is_linebreak c) s) \<le> length s"
    by (rule length_dropWhile_le)
  with 3 show ?case by auto
qed

declare splitlines.simps [simp del]

text \<open>\<open>sep.join(xs)\<close>.\<close>

fun join :: "pystr \<Rightarrow> pystr list \<Rightarrow> pystr" where
  "join sep [] = []"
| "join sep [x] = x"
| "join sep (x # y # ys) = x @ sep @ join sep (y # ys)"

section \<open>The normalizer\<close>

text \<open>
  \<open>clean_content\<close> (lines 123-125): the comprehension keeps, in order, the stripped form of
  every line whose stripped form is truthy (non-empty), and the result joins them with LF.
\<close>

definition clean_content :: "pystr \<Rightarrow> pystr" where
  "clean_content content =
     (let lines = [strip line. line \<leftarrow> splitlines content, strip line \<noteq> []]
      in join [10] lines)"

section \<open>The normalizer as the specification words it\<close>

text \<open>
  The specification: split the input into lines; discard any line that is empty after
  trimming leading and trailing whitespace; trim every remaining line; rejoin the survivors
  with a single newline, in their order.  Read by itself, a line is what stands between two
  line boundaries: the text is cut at every boundary character.
\<close>

fun segments :: "pystr \<Rightarrow> pystr list" where
  "segments [] = [[]]"
| "segments (c # cs) =
     (if is_linebreak c then [] # segments cs
      else (case segments cs of [] \<Rightarrow> [[c]] | l # ls \<Rightarrow> (c # l) # ls))"

fun drop_trailing :: "pystr \<Rightarrow> pystr" where
  "drop_trailing [] = []"
| "drop_trailing (c # cs) = (if list_all is_space (c # cs) then [] else c # drop_trailing cs)"

definition trim :: "pystr \<Rightarrow> pystr" where
  "trim l = drop_trailing (dropWhile is_space l)"

fun rejoin :: "pystr list \<Rightarrow> pystr" where
  "rejoin [] = []"
| "rejoin (l # ls) = l @ concat (map (\<lambda>x. 10 # x) ls)"

definition normalize_spec :: "pystr \<Rightarrow> pystr" where
  "normalize_spec s = rejoin (map trim (filter (\<lambda>l. trim l \<noteq> []) (segments s)))"

text \<open>The stripped, non-empty lines of a text.\<close>

definition content_lines :: "pystr \<Rightarrow> pystr list" where
  "content_lines s = map strip (filter (\<lambda>l. strip l \<noteq> []) (segments s))"

text \<open>
  \<open>pads_to T U\<close>: the text \<open>U\<close> comes from \<open>T\<close> by inserting whitespace, any number of
  times, at the start of a line (leading spaces, or whole blank lines when the inserted
  whitespace ends in a newline) or at the end of a line (trailing spaces).
\<close>

inductive pads_to :: "pystr \<Rightarrow> pystr \<Rightarrow> bool" where
  same: "pads_to T T"
| at_line_start:
    "pads_to T (a @ b) \<Longrightarrow> list_all is_space ws \<Longrightarrow> a = [] \<or> is_linebreak (last a)
       \<Longrightarrow> pads_to T (a @ ws @ b)"
| at_line_end:
    "pads_to T (a @ b) \<Longrightarrow> list_all is_space ws \<Longrightarrow> b = [] \<or> is_linebreak (hd b)
       \<Longrightarrow> pads_to T (a @ ws @ b)"

section \<open>The world the script runs in\<close>

text \<open>
  An exception carries the text \<open>str(e)\<close> and whether it is an instance of \<open>Exception\<close>:
  the handlers of the script are \<open>except Exception\<close>, which lets \<open>KeyboardInterrupt\<close> and
  the other direct subclasses of \<open>BaseException\<close> through.
\<close>

datatype exn = Exn (is_Exception: bool) (message: pystr)

text \<open>What \<open>response.json()\<close> can return: any JSON value, as Python represents it.\<close>

datatype json =
    JNull
  | JBool bool
  | JInt int
  | JFloat real
  | JStr pystr
  | JArr "json list"
  | JObj "(pystr \<times> json) list"

type_synonym headers = "(pystr \<times> pystr) list"

text \<open>
  The outcome of \<open>requests.get\<close>: it raises, or it returns a response with a
  \<open>status_code\<close> and what calling \<open>json()\<close> on it does.
\<close>

datatype response = Raises exn | Response nat "exn + json"

text \<open>
  Everything the script takes from outside: the environment as \<open>os.environ.get\<close> reads it
  after \<open>load_dotenv\<close>, the network behind \<open>requests.get\<close>, and the two library decoders
  \<open>base64.b64decode\<close> and \<open>bytes.decode("utf-8")\<close>, which are not code of this repository
  and are taken as they come (\<open>Inl\<close> is the exception they raise).
\<close>

record world =
  environ :: "pystr \<Rightarrow> pystr option"
  requests_get :: "pystr \<Rightarrow> headers \<Rightarrow> response"
  b64decode :: "json \<Rightarrow> exn + nat list"
  decode_utf8 :: "nat list \<Rightarrow> exn + pystr"

text \<open>
  What a run does, in order: the lines printed to the two streams (the argument of
  \<open>print\<close>), and the calls made to the network, to the decoders and to the normalizer.
\<close>

datatype event =
    Stdout pystr
  | Stderr pystr
  | Get pystr headers
  | Json
  | B64decode json
  | Decode "nat list"
  | Clean pystr

text \<open>The events that reach the network, and those that work on fetched content.\<close>

fun is_request :: "event \<Rightarrow> bool" where
  "is_request (Get url headers) = True"
| "is_request e = False"

fun touches_content :: "event \<Rightarrow> bool" where
  "touches_content (B64decode v) = True"
| "touches_content (Decode bs) = True"
| "touches_content (Clean s) = True"
| "touches_content e = False"

text \<open>Truth value of a Python object, as \<open>not x\<close> tests it.\<close>

fun truthy :: "json \<Rightarrow> bool" where
  "truthy JNull = False"
| "truthy (JBool b) = b"
| "truthy (JInt i) = (i \<noteq> 0)"
| "truthy (JFloat x) = (x \<noteq> 0)"
| "truthy (JStr s) = (s \<noteq> [])"
| "truthy (JArr xs) = (xs \<noteq> [])"
| "truthy (JObj kvs) = (kvs \<noteq> [])"

fun truthy_str :: "pystr option \<Rightarrow> bool" where
  "truthy_str None = False"
| "truthy_str (Some s) = (s \<noteq> [])"

fun type_name :: "json \<Rightarrow> pystr" where
  "type_name JNull = str ''NoneType''"
| "type_name (JBool b) = str ''bool''"
| "type_name (JInt i) = str ''int''"
| "type_name (JFloat x) = str ''float''"
| "type_name (JStr s) = str ''str''"
| "type_name (JArr xs) = str ''list''"
| "type_name (JObj kvs) = str ''dict''"

text \<open>
  \<open>result.get(key, default)\<close>: the lookup of a dict; on any other value the attribute
  \<open>get\<close> is missing and the access raises \<open>AttributeError\<close>.
\<close>

fun dict_get :: "json \<Rightarrow> pystr \<Rightarrow> json \<Rightarrow> exn + json" where
  "dict_get (JObj kvs) key dflt =
     (case map_of kvs key of None \<Rightarrow> Inr dflt | Some v \<Rightarrow> Inr v)"
| "dict_get j key dflt =
     Inl (Exn True ([39] @ type_name j @ [39] @ str '' object has no attribute '' @
       [39] @ str ''get'' @ [39]))"

text \<open>The decimal digits of a number, as an f-string formats an \<open>int\<close>.\<close>

fun decimal :: "nat \<Rightarrow> pystr" where
  "decimal n = (if n < 10 then [48 + n] else decimal (n div 10) @ [48 + n mod 10])"

declare decimal.simps [simp del]

section \<open>The messages\<close>

definition api_not_found_msg :: "pystr \<Rightarrow> pystr" where
  "api_not_found_msg endpoint =
     str ''[API '' @ [25552, 31034] @ str ''] '' @ endpoint @ str '' '' @
       [36164, 28304, 26410, 25214, 21040, 65288] @ str ''404'' @
       [65289, 65292, 21487, 33021, 26159, 20179, 24211] @ str ''/'' @
       [25991, 20214, 19981, 23384, 22312, 25110, 20998, 25903, 38169, 35823]"

definition api_status_msg :: "pystr \<Rightarrow> nat \<Rightarrow> pystr" where
  "api_status_msg endpoint status_code =
     str ''[API '' @ [38169, 35823] @ str ''] '' @ endpoint @ str '' '' @
       [29366, 24577, 30721, 65306] @ decimal status_code @
       [65292, 21487, 33021, 26159, 20196, 29260, 26435, 38480, 19981, 36275]"

definition api_exception_msg :: "pystr \<Rightarrow> pystr \<Rightarrow> pystr" where
  "api_exception_msg endpoint m =
     str ''[API '' @ [24322, 24120] @ str ''] '' @ [35843, 29992] @ str '' '' @
       endpoint @ str '' '' @ [22833, 36133, 65306] @ m @
       [65292, 35831, 26816, 26597, 32593, 32476, 36830, 25509]"

definition decode_error_msg :: "pystr \<Rightarrow> pystr" where
  "decode_error_msg m =
     str ''['' @ [25991, 20214, 35299, 30721, 38169, 35823] @ str ''] LICENSE'' @
       [65306] @ m @ [65292, 21487, 33021, 26159, 25991, 20214, 32534, 30721, 38750] @
       str '' UTF-8''"

definition token_missing_msg :: "pystr" where
  "token_missing_msg =
     str ''Error: .mcp_env '' @ [25991, 20214, 20013, 26410, 37197, 32622] @
       str '' MCP_GITHUB_TOKEN'' @ [65288] @ str ''GitHub '' @ [20196, 29260, 65289]"

definition org_missing_msg :: "pystr" where
  "org_missing_msg =
     str ''Error: .mcp_env '' @ [25991, 20214, 20013, 26410, 37197, 32622] @
       str '' GITHUB_EVAL_ORG'' @ [65288] @ str ''GitHub '' @ [32452, 32455] @
       str ''/'' @ [29992, 25143, 21517, 65289]"

definition start_msg :: "pystr" where
  "start_msg =
     [24320, 22987, 25191, 34892] @ str '' GitHub LICENSE '' @ [25991, 20214, 65288] @
       str ''MIT '' @ [21327, 35758, 65289, 21512, 35268, 24615, 39564, 35777]"

definition target_msg :: "pystr \<Rightarrow> pystr" where
  "target_msg github_org =
     [30446, 26631, 20179, 24211, 65306] @ github_org @ str ''/project-x'' @ [65288] @
       str ''main '' @ [20998, 25903, 65289]"

definition step1_msg :: "pystr" where
  "step1_msg =
     [10] @ str ''[1/2] '' @ [26816, 26597] @ str '' main '' @ [20998, 25903, 20013] @
       str '' LICENSE '' @ [25991, 20214, 26159, 21542, 23384, 22312] @ str ''...''"

definition license_missing_msg :: "pystr" where
  "license_missing_msg =
     str ''Error: main '' @ [20998, 25903, 20013, 26410, 25214, 21040] @
       str '' LICENSE '' @
       [25991, 20214, 65288, 21487, 33021, 26159, 36335, 24452, 12289, 20998, 25903, 38169, 35823, 25110, 20196, 29260, 26080, 26435, 38480, 65289]"

definition step1_ok_msg :: "pystr" where
  "step1_ok_msg =
     [10003] @ str '' '' @ [25104, 21151, 65306] @ str ''LICENSE '' @
       [25991, 20214, 23384, 22312, 20110] @ str '' main '' @ [20998, 25903]"

definition step2_msg :: "pystr" where
  "step2_msg =
     [10] @ str ''[2/2] '' @ [39564, 35777] @ str '' LICENSE '' @
       [20869, 23481, 26159, 21542, 31526, 21512] @ str '' MIT '' @
       [21327, 35758, 26631, 20934] @ str ''...''"

definition mismatch_msg :: "pystr" where
  "mismatch_msg =
     str ''Error: LICENSE '' @ [20869, 23481, 19981, 31526, 21512] @ str '' MIT '' @
       [21327, 35758, 26631, 20934]"

definition expected_clause_msg :: "pystr" where
  "expected_clause_msg =
     [39044, 26399, 26680, 24515, 26465, 27454, 65288, 31034, 20363, 65289, 65306] @
       str ''Permission is hereby granted, free of charge...''"

definition step2_ok_msg :: "pystr" where
  "step2_ok_msg =
     [10003] @ str '' '' @ [25104, 21151, 65306] @ str ''LICENSE '' @
       [20869, 23481, 31526, 21512] @ str '' MIT '' @ [21327, 35758, 26631, 20934]"

definition all_passed_msg :: "pystr" where
  "all_passed_msg =
     [127881] @ str '' '' @
       [25152, 26377, 39564, 35777, 27493, 39588, 36890, 36807, 65281] @
       str ''LICENSE '' @ [25991, 20214, 65288] @ str ''MIT '' @
       [21327, 35758, 65289, 21512, 35268, 24615, 26657, 39564, 25104, 21151]"

definition summary_msg :: "pystr" where
  "summary_msg =
     [10, 39564, 35777, 24635, 32467, 65306]"

definition summary_repo_msg :: "pystr \<Rightarrow> pystr" where
  "summary_repo_msg github_org =
     str ''  - '' @ [30446, 26631, 20179, 24211, 65306] @ github_org @
       str ''/project-x''"

definition summary_file_msg :: "pystr" where
  "summary_file_msg =
     str ''  - '' @ [39564, 35777, 25991, 20214, 65306] @ str ''LICENSE'' @ [65288] @
       str ''main '' @ [20998, 25903, 65292, 26681, 30446, 24405, 65289]"

definition summary_type_msg :: "pystr" where
  "summary_type_msg =
     str ''  - '' @ [21327, 35758, 31867, 22411, 65306] @ str ''MIT '' @
       [24320, 28304, 21327, 35758]"

definition actual_clause_label :: "pystr" where
  "actual_clause_label =
     [23454, 38469, 26680, 24515, 26465, 27454, 65288, 31034, 20363, 65289, 65306]"

definition EXPECTED_MIT_CONTENT :: "pystr" where
  "EXPECTED_MIT_CONTENT =
     str ''MIT License'' @ [10] @
     str ''Copyright (c) [Year] [Copyright Holder]'' @ [10] @
     str ''Permission is hereby granted, free of charge, to any person obtaining a copy'' @ [10] @
     str ''of this software and associated documentation files (the '' @ [34] @ str ''Software'' @ [34] @ str ''), to deal'' @ [10] @
     str ''in the Software without restriction, including without limitation the rights'' @ [10] @
     str ''to use, copy, modify, merge, publish, distribute, sublicense, and/or sell'' @ [10] @
     str ''copies of the Software, subject to the following conditions:'' @ [10] @
     str ''The above copyright notice and this permission notice shall be included in all'' @ [10] @
     str ''copies or substantial portions of the Software.'' @ [10] @
     str ''THE SOFTWARE IS PROVIDED '' @ [34] @ str ''AS IS'' @ [34] @ str '', WITHOUT WARRANTY OF ANY KIND, EXPRESS OR'' @ [10] @
     str ''IMPLIED, INCLUDING BUT NOT LIMITED TO THE WARRANTIES OF MERCHANTABILITY,'' @ [10] @
     str ''FITNESS FOR A PARTICULAR PURPOSE AND NONINFRINGEMENT. IN NO EVENT SHALL THE'' @ [10] @
     str ''AUTHORS OR COPYRIGHT HOLDERS BE LIABLE FOR ANY CLAIM, DAMAGES OR OTHER'' @ [10] @
     str ''LIABILITY, WHETHER IN AN ACTION OF CONTRACT, TORT OR OTHERWISE, ARISING FROM,'' @ [10] @
     str ''OUT OF OR IN CONNECTION WITH THE SOFTWARE OR THE USE OR OTHER DEALINGS IN THE'' @ [10] @
     str ''SOFTWARE.''"

section \<open>The fetcher\<close>

text \<open>
  \<open>_call_github_api\<close> (lines 20-40).  The body of the \<open>try\<close> is evaluated first; an
  exception raised in it by \<open>requests.get\<close> or by \<open>response.json()\<close> goes to the handler
  when it is an \<open>Exception\<close>, and leaves the function otherwise.
\<close>

definition api_url :: "pystr \<Rightarrow> pystr \<Rightarrow> pystr \<Rightarrow> pystr" where
  "api_url org repo endpoint =
     str ''https://api.github.com/repos/'' @ org @ str ''/'' @ repo @ str ''/'' @ endpoint"

definition call_github_api ::
  "world \<Rightarrow> pystr \<Rightarrow> headers \<Rightarrow> pystr \<Rightarrow> pystr \<Rightarrow> (exn + bool \<times> json option) \<times> event list" where
  "call_github_api w endpoint headers org repo =
     (let url = api_url org repo endpoint in
      case
        (case requests_get w url headers of
           Raises e \<Rightarrow> (Inl e, [Get url headers])
         | Response status_code body \<Rightarrow>
             if status_code = 200 then
               (case body of
                  Inl e \<Rightarrow> (Inl e, [Get url headers, Json])
                | Inr j \<Rightarrow> (Inr (True, Some j), [Get url headers, Json]))
             else if status_code = 404 then
               (Inr (False, None), [Get url headers, Stderr (api_not_found_msg endpoint)])
             else
               (Inr (False, None), [Get url headers, Stderr (api_status_msg endpoint status_code)]))
      of
        (Inl e, tr) \<Rightarrow>
          if is_Exception e
          then (Inr (False, None), tr @ [Stderr (api_exception_msg endpoint (message e))])
          else (Inl e, tr)
      | (Inr r, tr) \<Rightarrow> (Inr r, tr))"

text \<open>
  \<open>_get_license_content\<close> (lines 43-61).  The call of the API stands before the \<open>try\<close>;
  the lookup of \<open>"content"\<close> and the two decoders stand inside it.
\<close>

definition decode_content :: "world \<Rightarrow> json \<Rightarrow> (exn + pystr) \<times> event list" where
  "decode_content w result =
     (case dict_get result (str ''content'') (JStr []) of
        Inl e \<Rightarrow> (Inl e, [])
      | Inr v \<Rightarrow>
          (case b64decode w v of
             Inl e \<Rightarrow> (Inl e, [B64decode v])
           | Inr bs \<Rightarrow>
               (case decode_utf8 w bs of
                  Inl e \<Rightarrow> (Inl e, [B64decode v, Decode bs])
                | Inr s \<Rightarrow> (Inr s, [B64decode v, Decode bs]))))"

definition get_license_content ::
  "world \<Rightarrow> headers \<Rightarrow> pystr \<Rightarrow> pystr \<Rightarrow> pystr \<Rightarrow> (exn + pystr option) \<times> event list" where
  "get_license_content w headers org repo branch =
     (case call_github_api w (str ''contents/LICENSE?ref='' @ branch) headers org repo of
        (Inl e, tr) \<Rightarrow> (Inl e, tr)
      | (Inr (success, result), tr) \<Rightarrow>
          (case result of
             None \<Rightarrow> (Inr None, tr)
           | Some j \<Rightarrow>
               if \<not> success \<or> \<not> truthy j then (Inr None, tr)
               else
                 (case decode_content w j of
                    (Inr s, tr') \<Rightarrow> (Inr (Some s), tr @ tr')
                  | (Inl e, tr') \<Rightarrow>
                      if is_Exception e
                      then (Inr None, tr @ tr' @ [Stderr (decode_error_msg (message e))])
                      else (Inl e, tr @ tr'))))"

section \<open>The checker\<close>

text \<open>
  \<open>verify_license_compliance\<close> (lines 67-146).  The f-string printed on line 144 has a
  replacement field that is not an expression, so the line has no text of its own; the
  model takes the text as the argument \<open>copyright_msg\<close>.
\<close>

definition request_headers :: "pystr \<Rightarrow> headers" where
  "request_headers github_token =
     [(str ''Authorization'', str ''Bearer '' @ github_token),
      (str ''Accept'', str ''application/vnd.github.v3+json'')]"

definition banner :: "pystr \<Rightarrow> event list" where
  "banner github_org =
     [Stdout (replicate 60 61), Stdout start_msg, Stdout (target_msg github_org),
      Stdout (replicate 60 61), Stdout step1_msg]"

definition verify_license_compliance :: "world \<Rightarrow> pystr \<Rightarrow> (exn + bool) \<times> event list" where
  "verify_license_compliance w copyright_msg =
     (let github_token = environ w (str ''MCP_GITHUB_TOKEN'');
          github_org = environ w (str ''GITHUB_EVAL_ORG'')
      in
      if \<not> truthy_str github_token then (Inr False, [Stderr token_missing_msg])
      else if \<not> truthy_str github_org then (Inr False, [Stderr org_missing_msg])
      else
        let headers = request_headers (the github_token);
            started = banner (the github_org)
        in
        case get_license_content w headers (the github_org) (str ''project-x'') (str ''main'') of
          (Inl e, tr) \<Rightarrow> (Inl e, started @ tr)
        | (Inr license_content, tr) \<Rightarrow>
            if \<not> truthy_str license_content
            then (Inr False, started @ tr @ [Stderr license_missing_msg])
            else
              let cleaned_actual = clean_content (the license_content);
                  cleaned_expected = clean_content EXPECTED_MIT_CONTENT;
                  compared = started @ tr @
                    [Stdout step1_ok_msg, Stdout step2_msg,
                     Clean (the license_content), Clean EXPECTED_MIT_CONTENT]
              in
              if cleaned_actual \<noteq> cleaned_expected
              then (Inr False, compared @
                      [Stderr mismatch_msg, Stderr expected_clause_msg,
                       Stderr (actual_clause_label @ take 60 cleaned_actual @ str ''...'')])
              else (Inr True, compared @
                      [Stdout step2_ok_msg, Stdout (10 # replicate 60 61),
                       Stdout all_passed_msg, Stdout summary_msg,
                       Stdout (summary_repo_msg (the github_org)), Stdout summary_file_msg,
                       Stdout summary_type_msg, Stdout copyright_msg,
                       Stdout (replicate 60 61)]))"

section \<open>The script\<close>

text \<open>How the process ends: it is not compiled, an exception leaves it, or \<open>sys.exit\<close>.\<close>

datatype process = SyntaxError | Uncaught exn | Exit nat

text \<open>The entry point (lines 152-154).\<close>

definition main :: "world \<Rightarrow> pystr \<Rightarrow> process \<times> event list" where
  "main w copyright_msg =
     (case verify_license_compliance w copyright_msg of
        (Inl e, tr) \<Rightarrow> (Uncaught e, tr)
      | (Inr success, tr) \<Rightarrow> (Exit (if success then 0 else 1), tr))"

text \<open>
  The definitions above give each function the meaning of its body.  The script as a whole
  is subject to one more step, its compilation.
  Python compiles the replacement fields of an f-string as expressions, together with the
  module that holds it.  The two fields of line 144 are written without conversion or
  format specification.  No expression has two names in a row (keywords apart), so a field
  that has them fails the compilation of the script with \<open>SyntaxError\<close>, before any of its
  statements runs.
\<close>

definition copyright_fields :: "pystr list" where
  "copyright_fields = [str ''[2025]'', str ''[My Team / Your Name]'']"

definition is_name_char :: "nat \<Rightarrow> bool" where
  "is_name_char c = (48 \<le> c \<and> c \<le> 57 \<or> 65 \<le> c \<and> c \<le> 90 \<or> c = 95 \<or> 97 \<le> c \<and> c \<le> 122)"

text \<open>Tokens: the maximal runs of name characters, and every other non-blank character.\<close>

fun tokens :: "pystr \<Rightarrow> pystr \<Rightarrow> pystr list" where
  "tokens cur [] = (if cur = [] then [] else [cur])"
| "tokens cur (c # cs) =
     (if is_name_char c then tokens (cur @ [c]) cs
      else (if cur = [] then [] else [cur]) @ (if c = 32 then [] else [[c]]) @ tokens [] cs)"

definition python_keywords :: "pystr list" where
  "python_keywords = map str [''False'', ''None'', ''True'', ''and'', ''as'', ''assert'', ''async'',
     ''await'', ''break'', ''class'', ''continue'', ''def'', ''del'', ''elif'', ''else'',
     ''except'', ''finally'', ''for'', ''from'', ''global'', ''if'', ''import'', ''in'', ''is'',
     ''lambda'', ''nonlocal'', ''not'', ''or'', ''pass'', ''raise'', ''return'', ''try'',
     ''while'', ''with'', ''yield'']"

definition is_name :: "pystr \<Rightarrow> bool" where
  "is_name t = (t \<noteq> [] \<and> is_name_char (hd t) \<and> \<not> (48 \<le> hd t \<and> hd t \<le> 57) \<and> t \<notin> set python_keywords)"

fun names_in_a_row :: "pystr list \<Rightarrow> bool" where
  "names_in_a_row (a # b # ts) = (is_name a \<and> is_name b \<or> names_in_a_row (b # ts))"
| "names_in_a_row ts = False"

definition script :: "world \<Rightarrow> pystr \<Rightarrow> process \<times> event list" where
  "script w copyright_msg =
     (if list_ex (\<lambda>field. names_in_a_row (tokens [] field)) copyright_fields
      then (SyntaxError, [])
      else main w copyright_msg)"

section \<open>Notions used in the statements\<close>

text \<open>The one request the checker makes: the LICENSE file of \<open>project-x\<close> on \<open>main\<close>.\<close>

definition license_url :: "pystr \<Rightarrow> pystr" where
  "license_url github_org =
     api_url github_org (str ''project-x'') (str ''contents/LICENSE?ref='' @ str ''main'')"

text \<open>
  A fetch without content: a status other than 200, or an \<open>Exception\<close> raised by the
  request or by the parsing of the response.
\<close>

fun fetch_fails :: "response \<Rightarrow> bool" where
  "fetch_fails (Raises e) = is_Exception e"
| "fetch_fails (Response status_code (Inl e)) = (status_code \<noteq> 200 \<or> is_Exception e)"
| "fetch_fails (Response status_code (Inr j)) = (status_code \<noteq> 200)"

text \<open>A line as the normalizer leaves it: not empty, no whitespace at its ends, no boundary.\<close>

definition stripped_line :: "pystr \<Rightarrow> bool" where
  "stripped_line l =
     (l \<noteq> [] \<and> \<not> is_space (hd l) \<and> \<not> is_space (last l) \<and> list_all (\<lambda>c. \<not> is_linebreak c) l)"

text \<open>The sixteen lines of the template.\<close>

definition template_lines :: "pystr list" where
  "template_lines =
    [str ''MIT License'',
     str ''Copyright (c) [Year] [Copyright Holder]'',
     str ''Permission is hereby granted, free of charge, to any person obtaining a copy'',
     str ''of this software and associated documentation files (the '' @ [34] @ str ''Software'' @ [34] @ str ''), to deal'',
     str ''in the Software without restriction, including without limitation the rights'',
     str ''to use, copy, modify, merge, publish, distribute, sublicense, and/or sell'',
     str ''copies of the Software, subject to the following conditions:'',
     str ''The above copyright notice and this permission notice shall be included in all'',
     str ''copies or substantial portions of the Software.'',
     str ''THE SOFTWARE IS PROVIDED '' @ [34] @ str ''AS IS'' @ [34] @ str '', WITHOUT WARRANTY OF ANY KIND, EXPRESS OR'',
     str ''IMPLIED, INCLUDING BUT NOT LIMITED TO THE WARRANTIES OF MERCHANTABILITY,'',
     str ''FITNESS FOR A PARTICULAR PURPOSE AND NONINFRINGEMENT. IN NO EVENT SHALL THE'',
     str ''AUTHORS OR COPYRIGHT HOLDERS BE LIABLE FOR ANY CLAIM, DAMAGES OR OTHER'',
     str ''LIABILITY, WHETHER IN AN ACTION OF CONTRACT, TORT OR OTHERWISE, ARISING FROM,'',
     str ''OUT OF OR IN CONNECTION WITH THE SOFTWARE OR THE USE OR OTHER DEALINGS IN THE'',
     str ''SOFTWARE.'']"

text \<open>
  Sample worlds.  The environment either sets nothing, or sets the token \<open>t0ken\<close> and the
  organization \<open>acme\<close>.
\<close>

definition no_environ :: "pystr \<Rightarrow> pystr option" where
  "no_environ name = None"

definition acme_environ :: "pystr \<Rightarrow> pystr option" where
  "acme_environ name =
     (if name = str ''MCP_GITHUB_TOKEN'' then Some (str ''t0ken'')
      else if name = str ''GITHUB_EVAL_ORG'' then Some (str ''acme'')
      else None)"

text \<open>Nothing is configured.\<close>

definition world_unconfigured :: world where
  "world_unconfigured =
     \<lparr>environ = no_environ,
      requests_get = (\<lambda>url headers. Response 200 (Inr (JObj [(str ''content'', JStr [])]))),
      b64decode = (\<lambda>v. Inr []),
      decode_utf8 = (\<lambda>bs. Inr bs)\<rparr>"

text \<open>The connection times out.\<close>

definition world_timeout :: world where
  "world_timeout =
     \<lparr>environ = acme_environ,
      requests_get = (\<lambda>url headers. Raises (Exn True (str ''timed out''))),
      b64decode = (\<lambda>v. Inr []),
      decode_utf8 = (\<lambda>bs. Inr bs)\<rparr>"

text \<open>The API answers 403.\<close>

definition world_forbidden :: world where
  "world_forbidden =
     \<lparr>environ = acme_environ,
      requests_get = (\<lambda>url headers. Response 403 (Inr (JObj [(str ''message'', JStr (str ''Forbidden''))]))),
      b64decode = (\<lambda>v. Inr []),
      decode_utf8 = (\<lambda>bs. Inr bs)\<rparr>"

text \<open>The API answers 200 with a JSON object that has no \<open>content\<close> field.\<close>

definition world_no_content_field :: world where
  "world_no_content_field =
     \<lparr>environ = acme_environ,
      requests_get = (\<lambda>url headers. Response 200 (Inr (JObj [(str ''name'', JStr (str ''LICENSE''))]))),
      b64decode = (\<lambda>v. Inr []),
      decode_utf8 = (\<lambda>bs. Inr bs)\<rparr>"

text \<open>The LICENSE file exists and is empty.\<close>

definition world_empty_file :: world where
  "world_empty_file =
     \<lparr>environ = acme_environ,
      requests_get = (\<lambda>url headers. Response 200 (Inr (JObj [(str ''content'', JStr [])]))),
      b64decode = (\<lambda>v. Inr []),
      decode_utf8 = (\<lambda>bs. Inr bs)\<rparr>"

text \<open>The LICENSE file holds the two characters \<open>hi\<close> (\<open>aGk=\<close> in base64).\<close>

definition world_other_text :: world where
  "world_other_text =
     \<lparr>environ = acme_environ,
      requests_get = (\<lambda>url headers. Response 200 (Inr (JObj [(str ''content'', JStr (str ''aGk=''))]))),
      b64decode = (\<lambda>v. Inr [104, 105]),
      decode_utf8 = (\<lambda>bs. Inr bs)\<rparr>"

section \<open>Lines and stripping\<close>

lemma lines_comprehension:
  "[strip line. line \<leftarrow> ls, strip line \<noteq> []] = map strip (filter (\<lambda>l. strip l \<noteq> []) ls)"
  by (induction ls) auto

lemma segments_nonempty: "segments s \<noteq> []"
  by (induction s) (auto split: list.splits)

lemma segments_no_break: "\<forall>c\<in>set l. \<not> is_linebreak c \<Longrightarrow> segments l = [l]"
  by (induction l) auto

lemma segments_at_break:
  "is_linebreak c \<Longrightarrow> segments (a @ c # r) = segments a @ segments r"
  by (induction a) (auto split: list.splits simp: segments_nonempty)

lemma segments_snoc:
  "\<not> is_linebreak w \<Longrightarrow> segments (a @ [w]) = butlast (segments a) @ [last (segments a) @ [w]]"
  by (induction a) (auto split: list.splits simp: segments_nonempty)

lemma segments_lines_break_free: "\<forall>l\<in>set (segments s). \<forall>c\<in>set l. \<not> is_linebreak c"
  by (induction s) (auto split: list.splits if_splits)

text \<open>
  \<open>splitlines\<close> and the plain cut differ only in empty lines: the one between CR and LF,
  and the one after a boundary at the very end.
\<close>

lemma splitlines_segments:
  "filter (\<lambda>l. l \<noteq> []) (splitlines s) = filter (\<lambda>l. l \<noteq> []) (segments s)"
proof (induction s rule: splitlines.induct)
  case (1 s)
  let ?l = "takeWhile (\<lambda>c. \<not> is_linebreak c) s"
  let ?d = "dropWhile (\<lambda>c. \<not> is_linebreak c) s"
  have s: "s = ?l @ ?d" by simp
  have l: "\<forall>c\<in>set ?l. \<not> is_linebreak c" by (auto dest: set_takeWhileD)
  show ?case
  proof (cases "s = []")
    case True
    then show ?thesis by (simp add: splitlines.simps)
  next
    case ne: False
    show ?thesis
    proof (cases ?d)
      case Nil
      then have "?l = s" using s by (metis append_Nil2)
      then have "segments s = [s]" using l segments_no_break by metis
      moreover have "splitlines s = [s]"
        by (subst splitlines.simps) (simp only: ne Nil \<open>?l = s\<close> if_False list.case)
      ultimately show ?thesis by simp
    next
      case (Cons c r)
      have c: "is_linebreak c" using hd_dropWhile[of "\<lambda>c. \<not> is_linebreak c" s] Cons by simp
      have seg: "segments s = segments ?l @ segments r"
        using segments_at_break[OF c, of ?l r] s Cons by metis
      have seg': "segments s = ?l # segments r"
        using seg segments_no_break[OF l] by simp
      show ?thesis
      proof (cases "c = 13 \<and> r \<noteq> [] \<and> hd r = 10")
        case True
        then obtain r' where r: "r = 10 # r'" by (cases r) auto
        have "segments r = [] # segments r'" by (simp add: r is_linebreak_def)
        moreover have "filter (\<lambda>l. l \<noteq> []) (splitlines (tl r)) = filter (\<lambda>l. l \<noteq> []) (segments (tl r))"
          using "1.IH"(1)[OF ne Cons True] .
        moreover have "splitlines s = ?l # splitlines (tl r)"
          by (subst splitlines.simps) (simp add: ne Cons True)
        ultimately show ?thesis using seg' r by simp
      next
        case False
        have "filter (\<lambda>l. l \<noteq> []) (splitlines r) = filter (\<lambda>l. l \<noteq> []) (segments r)"
          using "1.IH"(2)[OF ne Cons False] .
        moreover have "splitlines s = ?l # splitlines r"
          by (subst splitlines.simps) (simp add: ne Cons False)
        ultimately show ?thesis using seg' by simp
      qed
    qed
  qed
qed

lemma drop_trailing_blank: "list_all is_space l \<Longrightarrow> drop_trailing l = []"
  by (cases l) auto

lemma drop_trailing_rev: "rev (dropWhile is_space (rev l)) = drop_trailing l"
proof (induction l)
  case Nil
  show ?case by simp
next
  case (Cons c cs)
  show ?case
  proof (cases "list_all is_space cs")
    case True
    then have "dropWhile is_space (rev cs) = []" by (simp add: list_all_iff)
    with True drop_trailing_blank[OF True] show ?thesis
      by (simp add: dropWhile_append list_all_iff)
  next
    case False
    then have "dropWhile is_space (rev cs @ [c]) = dropWhile is_space (rev cs) @ [c]"
      by (auto simp: dropWhile_append list_all_iff)
    with False Cons.IH show ?thesis by simp
  qed
qed

lemma strip_trim: "strip = trim"
  by (rule ext) (simp add: strip_def trim_def drop_trailing_rev)

lemma join_rejoin: "join [10] ls = rejoin ls"
  by (induction "[10::nat]" ls rule: join.induct) auto

lemma strip_Nil: "strip [] = []"
  by (simp add: strip_def)

lemma filter_strip_nonempty:
  "filter (\<lambda>l. strip l \<noteq> []) xs = filter (\<lambda>l. strip l \<noteq> []) (filter (\<lambda>l. l \<noteq> []) xs)"
  by (induction xs) (auto simp: strip_Nil)

lemma clean_content_lines: "clean_content s = join [10] (content_lines s)"
proof -
  have "filter (\<lambda>l. strip l \<noteq> []) (splitlines s) = filter (\<lambda>l. strip l \<noteq> []) (segments s)"
    using filter_strip_nonempty[of "splitlines s"] filter_strip_nonempty[of "segments s"]
      splitlines_segments[of s] by simp
  then show ?thesis
    by (simp add: clean_content_def content_lines_def lines_comprehension)
qed

lemma strip_cons_space: "is_space w \<Longrightarrow> strip (w # l) = strip l"
  by (simp add: strip_def)

lemma dropWhile_all: "\<forall>x\<in>set xs. P x \<Longrightarrow> dropWhile P xs = []"
  by simp

lemma strip_snoc_space:
  assumes "is_space w"
  shows "strip (l @ [w]) = strip l"
proof (cases "\<forall>x\<in>set l. is_space x")
  case True
  then have b: "dropWhile is_space l = []" by (rule dropWhile_all)
  have a: "dropWhile is_space (l @ [w]) = []"
    by (rule dropWhile_all) (use True assms in auto)
  show ?thesis by (simp only: strip_def a b)
next
  case False
  then have a: "dropWhile is_space (l @ [w]) = dropWhile is_space l @ [w]"
    by (auto simp: dropWhile_append)
  show ?thesis unfolding strip_def a using assms by simp
qed

lemma dropWhile_id: "xs = [] \<or> \<not> P (hd xs) \<Longrightarrow> dropWhile P xs = xs"
  by (cases xs) auto

lemma last_dropWhile_keep: "dropWhile P xs \<noteq> [] \<Longrightarrow> last (dropWhile P xs) = last xs"
  by (induction xs) (auto split: if_splits)

lemma strip_fixed: "l = [] \<or> \<not> is_space (hd l) \<and> \<not> is_space (last l) \<Longrightarrow> strip l = l"
  using dropWhile_id[of l is_space] dropWhile_id[of "rev l" is_space]
  by (auto simp: strip_def hd_rev)

lemma strip_ends: "strip l = [] \<or> \<not> is_space (hd (strip l)) \<and> \<not> is_space (last (strip l))"
proof (cases "strip l = []")
  case True
  then show ?thesis by simp
next
  case False
  let ?t = "dropWhile is_space l"
  let ?u = "dropWhile is_space (rev ?t)"
  from False have u: "?u \<noteq> []" by (simp add: strip_def)
  have t: "?t \<noteq> []"
  proof
    assume "?t = []"
    then have "?u = []" by (simp only: rev.simps dropWhile.simps)
    with u show False by (simp only: simp_thms)
  qed
  have "last (rev ?u) = hd ?u" using u by (simp add: last_rev)
  moreover have "\<not> is_space (hd ?u)" using u by (rule hd_dropWhile)
  moreover have "hd (rev ?u) = last ?u" using u by (simp add: hd_rev)
  moreover have "last ?u = last (rev ?t)" using u by (rule last_dropWhile_keep)
  moreover have "last (rev ?t) = hd ?t" using t by (simp add: last_rev)
  moreover have "\<not> is_space (hd ?t)" using t by (rule hd_dropWhile)
  ultimately show ?thesis by (simp add: strip_def)
qed

lemma strip_idem: "strip (strip l) = strip l"
  by (rule strip_fixed) (rule strip_ends)

lemma set_strip: "set (strip l) \<subseteq> set l"
  by (auto simp: strip_def dest!: set_dropWhileD)

lemma linebreak_10: "is_linebreak 10"
  by (simp add: is_linebreak_def)

lemma segments_join:
  "ls \<noteq> [] \<Longrightarrow> \<forall>l\<in>set ls. \<forall>c\<in>set l. \<not> is_linebreak c \<Longrightarrow> segments (join [10] ls) = ls"
proof (induction "[10::nat]" ls rule: join.induct)
  case 1
  then show ?case by simp
next
  case (2 x)
  then show ?case by (simp add: segments_no_break)
next
  case (3 x y ys)
  have "segments (x @ 10 # join [10] (y # ys)) = segments x @ segments (join [10] (y # ys))"
    by (rule segments_at_break[OF linebreak_10])
  with 3 show ?case by (simp add: segments_no_break)
qed

lemma content_lines_member:
  assumes "l \<in> set (content_lines s)"
  shows "strip l = l" and "l \<noteq> []" and "\<forall>c\<in>set l. \<not> is_linebreak c"
proof -
  from assms obtain m where m: "m \<in> set (segments s)" "strip m \<noteq> []" "l = strip m"
    by (auto simp: content_lines_def)
  show "strip l = l" using m by (simp add: strip_idem)
  show "l \<noteq> []" using m by simp
  show "\<forall>c\<in>set l. \<not> is_linebreak c"
    using m segments_lines_break_free[of s] set_strip[of m] by blast
qed

lemma keep_stripped:
  "\<forall>l\<in>set ls. strip l = l \<and> l \<noteq> [] \<Longrightarrow> map strip (filter (\<lambda>l. strip l \<noteq> []) ls) = ls"
  by (induction ls) auto

lemma content_lines_Nil: "content_lines [] = []"
  by (simp add: content_lines_def strip_Nil)

lemma content_lines_join: "content_lines (join [10] (content_lines s)) = content_lines s"
proof (cases "content_lines s = []")
  case True
  then show ?thesis by (simp add: content_lines_Nil)
next
  case False
  have "segments (join [10] (content_lines s)) = content_lines s"
    using False content_lines_member(3) by (intro segments_join) auto
  then have "content_lines (join [10] (content_lines s)) =
      map strip (filter (\<lambda>l. strip l \<noteq> []) (content_lines s))"
    by (simp add: content_lines_def)
  also have "\<dots> = content_lines s"
    using content_lines_member(1,2) by (intro keep_stripped) auto
  finally show ?thesis .
qed

lemma content_lines_cons_space:
  assumes "is_space w"
  shows "content_lines (w # r) = content_lines r"
proof (cases "is_linebreak w")
  case True
  then show ?thesis by (simp add: content_lines_def strip_Nil)
next
  case False
  obtain l ls where seg: "segments r = l # ls"
    using segments_nonempty[of r] by (cases "segments r") auto
  with False assms show ?thesis
    by (simp add: content_lines_def strip_cons_space)
qed

lemma content_lines_prepend: "list_all is_space ws \<Longrightarrow> content_lines (ws @ b) = content_lines b"
  by (induction ws) (auto simp: content_lines_cons_space)

lemma content_lines_at_break:
  "is_linebreak c \<Longrightarrow> content_lines (a @ c # r) = content_lines a @ content_lines r"
  by (simp add: content_lines_def segments_at_break)

lemma content_lines_snoc_space:
  assumes "is_space w"
  shows "content_lines (a @ [w]) = content_lines a"
proof (cases "is_linebreak w")
  case True
  then show ?thesis
    using content_lines_at_break[of w a "[]"] by (simp add: content_lines_Nil)
next
  case False
  have "segments a = butlast (segments a) @ [last (segments a)]"
    using segments_nonempty[of a] by simp
  then have "content_lines a =
      map strip (filter (\<lambda>l. strip l \<noteq> []) (butlast (segments a) @ [last (segments a)]))"
    by (simp add: content_lines_def)
  with False assms show ?thesis
    by (simp add: content_lines_def segments_snoc strip_snoc_space)
qed

lemma content_lines_append: "list_all is_space ws \<Longrightarrow> content_lines (a @ ws) = content_lines a"
proof (induction ws rule: rev_induct)
  case Nil
  show ?case by simp
next
  case (snoc w ws)
  then have "content_lines ((a @ ws) @ [w]) = content_lines (a @ ws)"
    by (intro content_lines_snoc_space) simp
  with snoc show ?case by simp
qed

lemma content_lines_line_start:
  assumes "list_all is_space ws" and "a = [] \<or> is_linebreak (last a)"
  shows "content_lines (a @ ws @ b) = content_lines (a @ b)"
proof (cases "a = []")
  case True
  with assms show ?thesis by (simp add: content_lines_prepend)
next
  case False
  then obtain a' c where a: "a = a' @ [c]" by (cases a rule: rev_cases) auto
  with assms have c: "is_linebreak c" by simp
  show ?thesis
    using content_lines_at_break[OF c, of a' "ws @ b"] content_lines_at_break[OF c, of a' b]
      content_lines_prepend[OF assms(1), of b]
    by (simp add: a)
qed

lemma content_lines_line_end:
  assumes "list_all is_space ws" and "b = [] \<or> is_linebreak (hd b)"
  shows "content_lines (a @ ws @ b) = content_lines (a @ b)"
proof (cases b)
  case Nil
  with assms show ?thesis by (simp add: content_lines_append)
next
  case (Cons c r)
  with assms have c: "is_linebreak c" by simp
  show ?thesis
    using content_lines_at_break[OF c, of "a @ ws" r] content_lines_at_break[OF c, of a r]
      content_lines_append[OF assms(1), of a]
    by (simp add: Cons)
qed

section \<open>Properties of the normalizer\<close>

text \<open>
  C2.  For every input string, \<open>clean_content\<close> returns what the algorithm of the
  specification returns: cut the input into lines, discard the lines that are empty after
  trimming, trim the others, and rejoin them with a single newline in their order.
\<close>

theorem clean_content_refines_spec: "clean_content s = normalize_spec s"
  by (simp add: clean_content_lines content_lines_def normalize_spec_def join_rejoin strip_trim)

text \<open>
  C3.  The normalizer is idempotent: normalizing a normalized string returns it unchanged,
  for every input string.
\<close>

theorem clean_content_idempotent: "clean_content (clean_content s) = clean_content s"
  by (simp add: clean_content_lines content_lines_join)

text \<open>
  C4.  The normalizer is whitespace-insensitive: a text to which blank lines, leading
  spaces or trailing spaces were added, anywhere and any number of times, normalizes to the
  same string as the text itself.
\<close>

theorem clean_content_whitespace_insensitive:
  "pads_to T U \<Longrightarrow> clean_content U = clean_content T"
proof (induction rule: pads_to.induct)
  case (same T)
  show ?case by simp
next
  case (at_line_start T a b ws)
  then show ?case by (simp add: clean_content_lines content_lines_line_start)
next
  case (at_line_end T a b ws)
  then show ?case by (simp add: clean_content_lines content_lines_line_end)
qed

lemma pads_example: "pads_to [97, 10, 98] [32, 97, 32, 10, 32, 10, 98]"
proof -
  have 1: "pads_to [97, 10, 98] ([] @ [32] @ [97, 10, 98])"
    by (rule pads_to.at_line_start) (simp_all add: pads_to.same is_space_def)
  have 2: "pads_to [97, 10, 98] ([32, 97] @ [32] @ [10, 98])"
    by (rule pads_to.at_line_end) (use 1 in \<open>simp_all add: is_space_def is_linebreak_def\<close>)
  have 3: "pads_to [97, 10, 98] ([32, 97, 32, 10] @ [32, 10] @ [98])"
    by (rule pads_to.at_line_start) (use 2 in \<open>simp_all add: is_space_def is_linebreak_def\<close>)
  then show ?thesis by simp
qed

theorem clean_content_whitespace_insensitive_witness:
  "pads_to [97, 10, 98] [32, 97, 32, 10, 32, 10, 98] \<and>
   clean_content [32, 97, 32, 10, 32, 10, 98] = clean_content [97, 10, 98]"
  using pads_example clean_content_whitespace_insensitive [OF pads_example] by (intro conjI)

section \<open>The template\<close>

lemma clean_content_join_fixed:
  assumes "list_all stripped_line ls"
  shows "clean_content (join [10] ls) = join [10] ls"
proof (cases "ls = []")
  case True
  then show ?thesis by (simp add: clean_content_lines content_lines_Nil)
next
  case False
  have "segments (join [10] ls) = ls"
    using False assms by (intro segments_join) (auto simp: list_all_iff stripped_line_def)
  moreover have "map strip (filter (\<lambda>l. strip l \<noteq> []) ls) = ls"
    using assms by (intro keep_stripped) (auto simp: list_all_iff stripped_line_def strip_fixed)
  ultimately show ?thesis by (simp add: clean_content_lines content_lines_def)
qed

lemma template_joined: "EXPECTED_MIT_CONTENT = join [10] template_lines"
  by (simp add: EXPECTED_MIT_CONTENT_def template_lines_def)

lemma template_lines_stripped: "list_all stripped_line template_lines"
  by (simp add: template_lines_def stripped_line_def str_def is_space_def is_linebreak_def)

text \<open>The embedded template is in normal form already.\<close>

lemma template_normalized: "clean_content EXPECTED_MIT_CONTENT = EXPECTED_MIT_CONTENT"
  unfolding template_joined using template_lines_stripped by (rule clean_content_join_fixed)

lemma template_not_empty: "[] \<noteq> EXPECTED_MIT_CONTENT"
  by (simp add: EXPECTED_MIT_CONTENT_def str_def)

lemma template_not_hi: "[104, 105] \<noteq> EXPECTED_MIT_CONTENT"
  by (simp add: EXPECTED_MIT_CONTENT_def str_def)

lemma clean_content_Nil: "clean_content [] = []"
  by (simp add: clean_content_lines content_lines_Nil)

section \<open>The paths of the fetcher\<close>

lemma call_github_api_status:
  assumes "requests_get w (api_url org repo endpoint) headers = Response status_code body"
    and "status_code \<noteq> 200"
  shows "call_github_api w endpoint headers org repo =
           (Inr (False, None),
            [Get (api_url org repo endpoint) headers,
             Stderr (if status_code = 404 then api_not_found_msg endpoint
                     else api_status_msg endpoint status_code)])"
  using assms by (simp add: call_github_api_def Let_def)

lemma call_github_api_raises:
  assumes "requests_get w (api_url org repo endpoint) headers = Raises e"
  shows "call_github_api w endpoint headers org repo =
           (if is_Exception e
            then (Inr (False, None),
                  [Get (api_url org repo endpoint) headers,
                   Stderr (api_exception_msg endpoint (message e))])
            else (Inl e, [Get (api_url org repo endpoint) headers]))"
  using assms by (simp add: call_github_api_def Let_def)

lemma call_github_api_json_raises:
  assumes "requests_get w (api_url org repo endpoint) headers = Response 200 (Inl e)"
  shows "call_github_api w endpoint headers org repo =
           (if is_Exception e
            then (Inr (False, None),
                  [Get (api_url org repo endpoint) headers, Json,
                   Stderr (api_exception_msg endpoint (message e))])
            else (Inl e, [Get (api_url org repo endpoint) headers, Json]))"
  using assms by (simp add: call_github_api_def Let_def)

lemma call_github_api_ok:
  assumes "requests_get w (api_url org repo endpoint) headers = Response 200 (Inr j)"
  shows "call_github_api w endpoint headers org repo =
           (Inr (True, Some j), [Get (api_url org repo endpoint) headers, Json])"
  using assms by (simp add: call_github_api_def Let_def)

lemma get_license_content_fails:
  assumes "fetch_fails (requests_get w (license_url org) headers)"
  shows "\<exists>tr. get_license_content w headers org (str ''project-x'') (str ''main'') = (Inr None, tr) \<and>
              filter touches_content tr = []"
proof (cases "requests_get w (license_url org) headers")
  case (Raises e)
  with assms show ?thesis
    using call_github_api_raises[of w org "str ''project-x''"
        "str ''contents/LICENSE?ref='' @ str ''main''" headers e]
    by (simp add: get_license_content_def license_url_def)
next
  case (Response status_code body)
  show ?thesis
  proof (cases "status_code = 200")
    case True
    with assms Response obtain e where e: "body = Inl e" "is_Exception e"
      by (cases body) auto
    show ?thesis
      using call_github_api_json_raises[of w org "str ''project-x''"
          "str ''contents/LICENSE?ref='' @ str ''main''" headers e]
        Response True e
      by (simp add: get_license_content_def license_url_def)
  next
    case False
    show ?thesis
      using call_github_api_status[of w org "str ''project-x''"
          "str ''contents/LICENSE?ref='' @ str ''main''" headers status_code body]
        Response False
      by (simp add: get_license_content_def license_url_def)
  qed
qed

lemma get_license_content_decoded:
  assumes "requests_get w (license_url org) headers = Response 200 (Inr j)"
    and "truthy j"
    and "dict_get j (str ''content'') (JStr []) = Inr v"
    and "b64decode w v = Inr bs"
    and "decode_utf8 w bs = Inr s"
  shows "get_license_content w headers org (str ''project-x'') (str ''main'') =
           (Inr (Some s), [Get (license_url org) headers, Json, B64decode v, Decode bs])"
  using assms
    call_github_api_ok[of w org "str ''project-x''"
      "str ''contents/LICENSE?ref='' @ str ''main''" headers j]
  by (simp add: get_license_content_def license_url_def decode_content_def)

section \<open>The paths of the checker\<close>

lemma verify_no_content:
  assumes "environ w (str ''MCP_GITHUB_TOKEN'') = Some token" and "token \<noteq> []"
    and "environ w (str ''GITHUB_EVAL_ORG'') = Some org" and "org \<noteq> []"
    and "get_license_content w (request_headers token) org (str ''project-x'') (str ''main'') =
           (Inr c, tr)"
    and "c = None \<or> c = Some []"
  shows "verify_license_compliance w m = (Inr False, banner org @ tr @ [Stderr license_missing_msg])"
  using assms by (auto simp: verify_license_compliance_def)

lemma verify_mismatch:
  assumes "environ w (str ''MCP_GITHUB_TOKEN'') = Some token" and "token \<noteq> []"
    and "environ w (str ''GITHUB_EVAL_ORG'') = Some org" and "org \<noteq> []"
    and "get_license_content w (request_headers token) org (str ''project-x'') (str ''main'') =
           (Inr (Some content), tr)"
    and "content \<noteq> []"
    and "clean_content content \<noteq> clean_content EXPECTED_MIT_CONTENT"
  shows "verify_license_compliance w m =
           (Inr False, banner org @ tr @
              [Stdout step1_ok_msg, Stdout step2_msg, Clean content, Clean EXPECTED_MIT_CONTENT,
               Stderr mismatch_msg, Stderr expected_clause_msg,
               Stderr (actual_clause_label @ take 60 (clean_content content) @ str ''...'')])"
  using assms by (simp add: verify_license_compliance_def)

text \<open>
  The body of the checker on a matching content: it would print the summary, with whatever
  text line 144 stood for, and return true; the entry point would exit with status 0.
\<close>

lemma verify_match:
  assumes "environ w (str ''MCP_GITHUB_TOKEN'') = Some token" and "token \<noteq> []"
    and "environ w (str ''GITHUB_EVAL_ORG'') = Some org" and "org \<noteq> []"
    and "get_license_content w (request_headers token) org (str ''project-x'') (str ''main'') =
           (Inr (Some content), tr)"
    and "clean_content content = clean_content EXPECTED_MIT_CONTENT"
  shows "verify_license_compliance w m =
           (Inr True, banner org @ tr @
              [Stdout step1_ok_msg, Stdout step2_msg, Clean content, Clean EXPECTED_MIT_CONTENT,
               Stdout step2_ok_msg, Stdout (10 # replicate 60 61), Stdout all_passed_msg,
               Stdout summary_msg, Stdout (summary_repo_msg org), Stdout summary_file_msg,
               Stdout summary_type_msg, Stdout m, Stdout (replicate 60 61)])"
proof -
  have "content \<noteq> []"
  proof
    assume "content = []"
    with assms(6) have "[] = EXPECTED_MIT_CONTENT"
      by (simp add: clean_content_Nil template_normalized)
    with template_not_empty show False by simp
  qed
  with assms show ?thesis by (simp add: verify_license_compliance_def)
qed

lemma main_match:
  assumes "environ w (str ''MCP_GITHUB_TOKEN'') = Some token" and "token \<noteq> []"
    and "environ w (str ''GITHUB_EVAL_ORG'') = Some org" and "org \<noteq> []"
    and "get_license_content w (request_headers token) org (str ''project-x'') (str ''main'') =
           (Inr (Some content), tr)"
    and "clean_content content = clean_content EXPECTED_MIT_CONTENT"
  shows "fst (main w m) = Exit 0"
  using verify_match[OF assms, of m] by (simp add: main_def)

lemma acme_token: "acme_environ (str ''MCP_GITHUB_TOKEN'') = Some (str ''t0ken'')"
  by (simp add: acme_environ_def)

lemma acme_org: "acme_environ (str ''GITHUB_EVAL_ORG'') = Some (str ''acme'')"
  by (simp add: acme_environ_def str_def)

lemma t0ken_nonempty: "str ''t0ken'' \<noteq> []"
  by (simp add: str_def)

lemma acme_nonempty: "str ''acme'' \<noteq> []"
  by (simp add: str_def)

section \<open>Properties of the checker\<close>

text \<open>
  C5.  For every configuration in which the token or the organization is absent or empty,
  \<open>verify_license_compliance\<close> returns false and makes no request to the network: the
  fetcher is never invoked.
\<close>

theorem missing_config_no_network:
  assumes "\<not> truthy_str (environ w (str ''MCP_GITHUB_TOKEN'')) \<or>
           \<not> truthy_str (environ w (str ''GITHUB_EVAL_ORG''))"
  shows "fst (verify_license_compliance w m) = Inr False \<and>
         filter is_request (snd (verify_license_compliance w m)) = []"
  using assms by (auto simp: verify_license_compliance_def Let_def)

theorem missing_config_no_network_witness:
  "\<not> truthy_str (environ world_unconfigured (str ''MCP_GITHUB_TOKEN'')) \<and>
   fst (verify_license_compliance world_unconfigured []) = Inr False \<and>
   filter is_request (snd (verify_license_compliance world_unconfigured [])) = []"
proof -
  have t: "\<not> truthy_str (environ world_unconfigured (str ''MCP_GITHUB_TOKEN''))"
    by (simp add: world_unconfigured_def no_environ_def)
  from t missing_config_no_network [OF disjI1 [OF t], of "[]"] show ?thesis by blast
qed

text \<open>
  C6, as the claim states it: when both settings are absent, the error stream gets one
  diagnostic line for each of the two.  The checker returns at the first missing setting,
  so with nothing configured the line of the organization is never written.
\<close>

theorem both_missing_counterexample:
  "\<not> (Stderr token_missing_msg \<in> set (snd (verify_license_compliance world_unconfigured [])) \<and>
      Stderr org_missing_msg \<in> set (snd (verify_license_compliance world_unconfigured [])))"
proof -
  have "snd (verify_license_compliance world_unconfigured []) = [Stderr token_missing_msg]"
    by (simp add: verify_license_compliance_def world_unconfigured_def no_environ_def)
  moreover have "token_missing_msg \<noteq> org_missing_msg"
    by (simp add: token_missing_msg_def org_missing_msg_def str_def)
  ultimately show ?thesis by simp
qed

text \<open>
  C6, amended.  When the configuration is incomplete, exactly one diagnostic line is written
  to the error stream: the line of the token when the token is absent or empty, and
  otherwise the line of the organization.
\<close>

theorem config_diagnostic_first_missing:
  assumes "\<not> truthy_str (environ w (str ''MCP_GITHUB_TOKEN'')) \<or>
           \<not> truthy_str (environ w (str ''GITHUB_EVAL_ORG''))"
  shows "snd (verify_license_compliance w m) =
           [Stderr (if \<not> truthy_str (environ w (str ''MCP_GITHUB_TOKEN''))
                    then token_missing_msg else org_missing_msg)]"
  using assms by (auto simp: verify_license_compliance_def Let_def)

theorem config_diagnostic_first_missing_witness:
  "\<not> truthy_str (environ world_unconfigured (str ''MCP_GITHUB_TOKEN'')) \<and>
   snd (verify_license_compliance world_unconfigured []) = [Stderr token_missing_msg]"
proof -
  have t: "\<not> truthy_str (environ world_unconfigured (str ''MCP_GITHUB_TOKEN''))"
    by (simp add: world_unconfigured_def no_environ_def)
  from config_diagnostic_first_missing [OF disjI1 [OF t], of "[]"] t show ?thesis
    by (simp only: if_True simp_thms)
qed

text \<open>
  C7, as the claim states it: every fetched content whose normalized form differs from the
  normalized template gets the diagnostic with the first 60 characters of its normalized
  form.  An empty LICENSE file is fetched with status 200, its normalized form differs from
  the template, and the checker reports the file as missing instead.
\<close>

theorem empty_file_counterexample:
  "get_license_content world_empty_file (request_headers (str ''t0ken'')) (str ''acme'')
      (str ''project-x'') (str ''main'') =
     (Inr (Some []),
      [Get (license_url (str ''acme'')) (request_headers (str ''t0ken'')), Json,
       B64decode (JStr []), Decode []]) \<and>
   clean_content [] \<noteq> clean_content EXPECTED_MIT_CONTENT \<and>
   Stderr (actual_clause_label @ take 60 (clean_content []) @ str ''...'')
     \<notin> set (snd (verify_license_compliance world_empty_file []))"
proof -
  let ?tr = "[Get (license_url (str ''acme'')) (request_headers (str ''t0ken'')), Json,
       B64decode (JStr []), Decode []]"
  have g: "get_license_content world_empty_file (request_headers (str ''t0ken'')) (str ''acme'')
      (str ''project-x'') (str ''main'') = (Inr (Some []), ?tr)"
    by (rule get_license_content_decoded [where j = "JObj [(str ''content'', JStr [])]"])
      (simp_all add: world_empty_file_def)
  have v: "verify_license_compliance world_empty_file [] =
      (Inr False, banner (str ''acme'') @ ?tr @ [Stderr license_missing_msg])"
    by (rule verify_no_content[OF _ t0ken_nonempty _ acme_nonempty g])
      (simp_all add: world_empty_file_def acme_token acme_org)
  have d: "clean_content [] \<noteq> clean_content EXPECTED_MIT_CONTENT"
    unfolding template_normalized clean_content_Nil by (rule template_not_empty)
  have m: "license_missing_msg \<noteq> actual_clause_label @ take 60 (clean_content []) @ str ''...''"
    by (simp add: license_missing_msg_def actual_clause_label_def str_def)
  from g d m show ?thesis by (simp add: v banner_def)
qed

text \<open>
  C7, amended.  For every non-empty fetched content whose normalized form differs from the
  normalized template, \<open>verify_license_compliance\<close> returns false, and the last of its
  diagnostics shows the first 60 characters of the normalized content.
\<close>

theorem mismatch_reported_with_prefix:
  assumes "environ w (str ''MCP_GITHUB_TOKEN'') = Some token" and "token \<noteq> []"
    and "environ w (str ''GITHUB_EVAL_ORG'') = Some org" and "org \<noteq> []"
    and "get_license_content w (request_headers token) org (str ''project-x'') (str ''main'') =
           (Inr (Some content), tr)"
    and "content \<noteq> []"
    and "clean_content content \<noteq> clean_content EXPECTED_MIT_CONTENT"
  shows "verify_license_compliance w m =
           (Inr False, banner org @ tr @
              [Stdout step1_ok_msg, Stdout step2_msg, Clean content, Clean EXPECTED_MIT_CONTENT,
               Stderr mismatch_msg, Stderr expected_clause_msg,
               Stderr (actual_clause_label @ take 60 (clean_content content) @ str ''...'')])"
  using assms by (rule verify_mismatch)

theorem mismatch_reported_with_prefix_witness:
  "environ world_other_text (str ''MCP_GITHUB_TOKEN'') = Some (str ''t0ken'') \<and>
   str ''t0ken'' \<noteq> [] \<and>
   environ world_other_text (str ''GITHUB_EVAL_ORG'') = Some (str ''acme'') \<and>
   str ''acme'' \<noteq> [] \<and>
   get_license_content world_other_text (request_headers (str ''t0ken'')) (str ''acme'')
      (str ''project-x'') (str ''main'') =
     (Inr (Some [104, 105]),
      [Get (license_url (str ''acme'')) (request_headers (str ''t0ken'')), Json,
       B64decode (JStr (str ''aGk='')), Decode [104, 105]]) \<and>
   [104, 105] \<noteq> ([] :: pystr) \<and>
   clean_content [104, 105] \<noteq> clean_content EXPECTED_MIT_CONTENT \<and>
   verify_license_compliance world_other_text [] =
     (Inr False, banner (str ''acme'') @
        [Get (license_url (str ''acme'')) (request_headers (str ''t0ken'')), Json,
         B64decode (JStr (str ''aGk='')), Decode [104, 105]] @
        [Stdout step1_ok_msg, Stdout step2_msg, Clean [104, 105], Clean EXPECTED_MIT_CONTENT,
         Stderr mismatch_msg, Stderr expected_clause_msg,
         Stderr (actual_clause_label @ take 60 (clean_content [104, 105]) @ str ''...'')])"
proof -
  have e1: "environ world_other_text (str ''MCP_GITHUB_TOKEN'') = Some (str ''t0ken'')"
    by (simp add: world_other_text_def acme_token)
  have e2: "environ world_other_text (str ''GITHUB_EVAL_ORG'') = Some (str ''acme'')"
    by (simp add: world_other_text_def acme_org)
  have g: "get_license_content world_other_text (request_headers (str ''t0ken'')) (str ''acme'')
      (str ''project-x'') (str ''main'') =
     (Inr (Some [104, 105]),
      [Get (license_url (str ''acme'')) (request_headers (str ''t0ken'')), Json,
       B64decode (JStr (str ''aGk='')), Decode [104, 105]])"
    by (rule get_license_content_decoded [where j = "JObj [(str ''content'', JStr (str ''aGk=''))]"])
      (simp_all add: world_other_text_def)
  have n: "[104, 105] \<noteq> ([] :: pystr)" by simp
  have c: "clean_content [104, 105] = [104, 105]"
    by (simp add: clean_content_lines content_lines_def strip_def is_space_def is_linebreak_def)
  have d: "clean_content [104, 105] \<noteq> clean_content EXPECTED_MIT_CONTENT"
    unfolding template_normalized c by (rule template_not_hi)
  from e1 t0ken_nonempty e2 acme_nonempty g n d
    mismatch_reported_with_prefix [OF e1 t0ken_nonempty e2 acme_nonempty g n d, of "[]"]
  show ?thesis by (intro conjI)
qed

text \<open>
  C8.  For every exception of the network or of the transport raised by the request or by
  the parsing of the response, \<open>_call_github_api\<close> catches it and turns it into a failure
  outcome that carries the underlying message: the function returns \<open>(False, None)\<close>, the
  line it prints to the error stream holds the text \<open>str(e)\<close> of the exception between the
  fixed words of line 39, and no exception reaches the caller.
\<close>

theorem api_exception_caught:
  assumes "is_Exception e"
    and "requests_get w (api_url org repo endpoint) headers = Raises e \<or>
         requests_get w (api_url org repo endpoint) headers = Response 200 (Inl e)"
  shows "call_github_api w endpoint headers org repo =
           (Inr (False, None),
            Get (api_url org repo endpoint) headers #
            (if requests_get w (api_url org repo endpoint) headers = Raises e then [] else [Json]) @
            [Stderr (str ''[API '' @ [24322, 24120] @ str ''] '' @ [35843, 29992] @ str '' '' @
                     endpoint @ str '' '' @ [22833, 36133, 65306] @ message e @
                     [65292, 35831, 26816, 26597, 32593, 32476, 36830, 25509])])"
  using assms call_github_api_raises[of w org repo endpoint headers e]
    call_github_api_json_raises[of w org repo endpoint headers e]
  by (auto simp: api_exception_msg_def)

theorem api_exception_caught_witness:
  "is_Exception (Exn True (str ''timed out'')) \<and>
   requests_get world_timeout (api_url (str ''acme'') (str ''project-x'') (str ''contents/LICENSE''))
      (request_headers (str ''t0ken'')) = Raises (Exn True (str ''timed out'')) \<and>
   call_github_api world_timeout (str ''contents/LICENSE'') (request_headers (str ''t0ken''))
      (str ''acme'') (str ''project-x'') =
     (Inr (False, None),
      [Get (api_url (str ''acme'') (str ''project-x'') (str ''contents/LICENSE''))
         (request_headers (str ''t0ken'')),
       Stderr (str ''[API '' @ [24322, 24120] @ str ''] '' @ [35843, 29992] @ str '' '' @
               str ''contents/LICENSE'' @ str '' '' @ [22833, 36133, 65306] @ str ''timed out'' @
               [65292, 35831, 26816, 26597, 32593, 32476, 36830, 25509])])"
proof -
  have a: "is_Exception (Exn True (str ''timed out''))" by simp
  have r: "requests_get world_timeout
      (api_url (str ''acme'') (str ''project-x'') (str ''contents/LICENSE''))
      (request_headers (str ''t0ken'')) = Raises (Exn True (str ''timed out''))"
    by (simp add: world_timeout_def)
  from a r api_exception_caught [OF a disjI1 [OF r]] show ?thesis by simp
qed

text \<open>
  C9.  For every fetch that ends without status 200 (404, another status, or an exception
  of the transport), the checker goes straight to the false result: nothing is decoded
  from base64 or UTF-8, nothing is normalized or compared with the template, and the run
  ends with the diagnostic of the missing file.
\<close>

theorem failed_fetch_short_circuits:
  assumes "environ w (str ''MCP_GITHUB_TOKEN'') = Some token" and "token \<noteq> []"
    and "environ w (str ''GITHUB_EVAL_ORG'') = Some org" and "org \<noteq> []"
    and "fetch_fails (requests_get w (license_url org) (request_headers token))"
  shows "fst (verify_license_compliance w m) = Inr False \<and>
         filter touches_content (snd (verify_license_compliance w m)) = [] \<and>
         last (snd (verify_license_compliance w m)) = Stderr license_missing_msg"
proof -
  obtain tr where tr:
    "get_license_content w (request_headers token) org (str ''project-x'') (str ''main'') =
       (Inr None, tr)"
    "filter touches_content tr = []"
    using get_license_content_fails[OF assms(5)] by blast
  have "verify_license_compliance w m = (Inr False, banner org @ tr @ [Stderr license_missing_msg])"
    using assms(1-4) tr(1) by (rule verify_no_content) simp
  then show ?thesis using tr(2) by (simp add: banner_def)
qed

theorem failed_fetch_short_circuits_witness:
  "environ world_forbidden (str ''MCP_GITHUB_TOKEN'') = Some (str ''t0ken'') \<and>
   str ''t0ken'' \<noteq> [] \<and>
   environ world_forbidden (str ''GITHUB_EVAL_ORG'') = Some (str ''acme'') \<and>
   str ''acme'' \<noteq> [] \<and>
   fetch_fails (requests_get world_forbidden (license_url (str ''acme''))
      (request_headers (str ''t0ken''))) \<and>
   fst (verify_license_compliance world_forbidden []) = Inr False \<and>
   filter touches_content (snd (verify_license_compliance world_forbidden [])) = [] \<and>
   last (snd (verify_license_compliance world_forbidden [])) = Stderr license_missing_msg"
proof -
  have e1: "environ world_forbidden (str ''MCP_GITHUB_TOKEN'') = Some (str ''t0ken'')"
    by (simp add: world_forbidden_def acme_token)
  have e2: "environ world_forbidden (str ''GITHUB_EVAL_ORG'') = Some (str ''acme'')"
    by (simp add: world_forbidden_def acme_org)
  have f: "fetch_fails (requests_get world_forbidden (license_url (str ''acme''))
      (request_headers (str ''t0ken'')))"
    by (simp add: world_forbidden_def)
  from e1 t0ken_nonempty e2 acme_nonempty f
    failed_fetch_short_circuits [OF e1 t0ken_nonempty e2 acme_nonempty f, of "[]"]
  show ?thesis by (intro conjI) simp_all
qed

text \<open>
  C10.  When the fetch succeeds with status 200 and the decoded content of the file is the
  empty string, as it is when the JSON of the response has no \<open>content\<close> field and the
  default \<open>""\<close> is decoded, \<open>verify_license_compliance\<close> does what it does after a failed
  fetch: it writes the diagnostic of the missing file and returns false, and reports no
  mismatch.
\<close>

theorem empty_content_reported_missing:
  assumes "environ w (str ''MCP_GITHUB_TOKEN'') = Some token" and "token \<noteq> []"
    and "environ w (str ''GITHUB_EVAL_ORG'') = Some org" and "org \<noteq> []"
    and "requests_get w (license_url org) (request_headers token) = Response 200 (Inr j)"
    and "truthy j"
    and "dict_get j (str ''content'') (JStr []) = Inr v"
    and "b64decode w v = Inr bs"
    and "decode_utf8 w bs = Inr []"
  shows "verify_license_compliance w m =
           (Inr False, banner org @
              [Get (license_url org) (request_headers token), Json, B64decode v, Decode bs,
               Stderr license_missing_msg])"
proof -
  have "get_license_content w (request_headers token) org (str ''project-x'') (str ''main'') =
          (Inr (Some []),
           [Get (license_url org) (request_headers token), Json, B64decode v, Decode bs])"
    using assms(5-9) by (rule get_license_content_decoded)
  with assms(1-4) have "verify_license_compliance w m =
      (Inr False, banner org @
         [Get (license_url org) (request_headers token), Json, B64decode v, Decode bs] @
         [Stderr license_missing_msg])"
    by (rule verify_no_content) simp
  then show ?thesis by simp
qed

theorem empty_content_reported_missing_witness:
  "environ world_no_content_field (str ''MCP_GITHUB_TOKEN'') = Some (str ''t0ken'') \<and>
   str ''t0ken'' \<noteq> [] \<and>
   environ world_no_content_field (str ''GITHUB_EVAL_ORG'') = Some (str ''acme'') \<and>
   str ''acme'' \<noteq> [] \<and>
   requests_get world_no_content_field (license_url (str ''acme'')) (request_headers (str ''t0ken'')) =
     Response 200 (Inr (JObj [(str ''name'', JStr (str ''LICENSE''))])) \<and>
   truthy (JObj [(str ''name'', JStr (str ''LICENSE''))]) \<and>
   dict_get (JObj [(str ''name'', JStr (str ''LICENSE''))]) (str ''content'') (JStr []) =
     Inr (JStr []) \<and>
   b64decode world_no_content_field (JStr []) = Inr [] \<and>
   decode_utf8 world_no_content_field [] = Inr [] \<and>
   verify_license_compliance world_no_content_field [] =
     (Inr False, banner (str ''acme'') @
        [Get (license_url (str ''acme'')) (request_headers (str ''t0ken'')), Json,
         B64decode (JStr []), Decode [], Stderr license_missing_msg])"
proof -
  have e1: "environ world_no_content_field (str ''MCP_GITHUB_TOKEN'') = Some (str ''t0ken'')"
    by (simp add: world_no_content_field_def acme_token)
  have e2: "environ world_no_content_field (str ''GITHUB_EVAL_ORG'') = Some (str ''acme'')"
    by (simp add: world_no_content_field_def acme_org)
  have r: "requests_get world_no_content_field (license_url (str ''acme''))
      (request_headers (str ''t0ken'')) =
     Response 200 (Inr (JObj [(str ''name'', JStr (str ''LICENSE''))]))"
    by (simp add: world_no_content_field_def)
  have t: "truthy (JObj [(str ''name'', JStr (str ''LICENSE''))])" by simp
  have g: "dict_get (JObj [(str ''name'', JStr (str ''LICENSE''))]) (str ''content'') (JStr []) =
     Inr (JStr [])"
    by (simp add: str_def)
  have b: "b64decode world_no_content_field (JStr []) = Inr []"
    by (simp add: world_no_content_field_def)
  have u: "decode_utf8 world_no_content_field [] = Inr []"
    by (simp add: world_no_content_field_def)
  from e1 t0ken_nonempty e2 acme_nonempty r t g b u
    empty_content_reported_missing [OF e1 t0ken_nonempty e2 acme_nonempty r t g b u, of "[]"]
  show ?thesis by (intro conjI)
qed

section \<open>The script as a whole\<close>

text \<open>
  C1.  A fetched content whose normalized form equals the normalized template should end
  in the success summary, the result true and the exit status 0.  The script as written
  cannot get there: the second replacement field of the f-string on line 144,
  \<open>[My Team / Your Name]\<close>, has names in a row, the compilation of the script fails, and
  no run of it prints a summary or exits with status 0, whatever is configured and whatever
  the network answers.
\<close>

theorem script_does_not_compile: "script w m = (SyntaxError, [])"
  by (simp add: script_def copyright_fields_def str_def is_name_char_def is_name_def
      python_keywords_def)

end
